theory Spec2Isabelle
  imports Complex_Main
begin

section \<open>Strings of the preprocessing module\<close>

text \<open>
  A Python \<open>str\<close> is a sequence of code points. The alphabet of this development is
  the Latin-1 block (code points 0 to 255, one \<^typ>\<open>char\<close> each) together with the
  two characters U+2013 (en dash) and U+2014 (em dash) that the regular expression of
  \<open>normalize_city\<close> names. On this alphabet \<open>str.strip\<close>, \<open>str.lower\<close> and the
  class \<open>\s\<close> are written out exactly; the case and whitespace tables of the rest of
  Unicode are not part of the repository and are outside the alphabet.
\<close>

datatype uchar = Latin char | EnDash | EmDash

type_synonym ustring = "uchar list"

definition ustr :: "string \<Rightarrow> ustring" where
  "ustr s = map Latin s"

definition hyphen :: uchar where
  "hyphen = Latin (CHR ''-'')"

definition blank :: uchar where
  "blank = Latin (CHR '' '')"

text \<open>
  Whitespace as \<open>str.isspace\<close>, \<open>str.strip\<close> and \<open>\s\<close> see it: TAB, LF, VT, FF, CR,
  the separators U+001C to U+001F, SPACE, NEL (U+0085) and NBSP (U+00A0).
\<close>

fun is_space :: "uchar \<Rightarrow> bool" where
  "is_space (Latin c) =
     (let n = (of_char c :: nat)
      in (9 \<le> n \<and> n \<le> 13) \<or> (28 \<le> n \<and> n \<le> 32) \<or> n = 133 \<or> n = 160)"
| "is_space EnDash = False"
| "is_space EmDash = False"

text \<open>
  \<open>str.lower\<close>, character by character: A to Z, and the Latin-1 capitals U+00C0 to
  U+00DE without the multiplication sign U+00D7, move up by 32.
\<close>

fun lower_char :: "uchar \<Rightarrow> uchar" where
  "lower_char (Latin c) =
     (let n = (of_char c :: nat)
      in if (65 \<le> n \<and> n \<le> 90) \<or> (192 \<le> n \<and> n \<le> 222 \<and> n \<noteq> 215)
         then Latin (char_of (n + 32)) else Latin c)"
| "lower_char EnDash = EnDash"
| "lower_char EmDash = EmDash"

definition lower :: "ustring \<Rightarrow> ustring" where
  "lower s = map lower_char s"

definition strip :: "ustring \<Rightarrow> ustring" where
  "strip s = rev (dropWhile is_space (rev (dropWhile is_space s)))"

text \<open>The character class of line 85: en dash, em dash, hyphen-minus.\<close>

definition is_dash :: "uchar \<Rightarrow> bool" where
  "is_dash c = (c = EnDash \<or> c = EmDash \<or> c = hyphen)"

definition unify_dashes :: "ustring \<Rightarrow> ustring" where
  "unify_dashes s = map (\<lambda>c. if is_dash c then hyphen else c) s"

text \<open>
  \<open>re.sub(r"\s+", " ", s)\<close>: scanning from the left, each maximal run of whitespace is
  replaced by one space.
\<close>

function collapse_spaces :: "ustring \<Rightarrow> ustring" where
  "collapse_spaces [] = []"
| "collapse_spaces (c # cs) =
     (if is_space c then blank # collapse_spaces (dropWhile is_space cs)
      else c # collapse_spaces cs)"
  by pat_completeness auto
termination
  by (relation "measure length") (auto simp: less_Suc_eq_le length_dropWhile_le)

text \<open>Lines 84 to 86 of \<open>normalize_city\<close>, on a string.\<close>

definition normalize_str :: "ustring \<Rightarrow> ustring" where
  "normalize_str s = collapse_spaces (unify_dashes (lower (strip s)))"

subsection \<open>Cells\<close>

text \<open>
  A cell of a table read from CSV is missing (NaN), a number or a string.
  \<open>normalize_city\<close> returns a missing value as it is and applies \<open>str\<close> to anything
  else; the text Python's \<open>str\<close> gives a number is the parameter \<open>num_str\<close>.
\<close>

datatype cell = NA | Num real | Str ustring

fun normalize_city :: "(real \<Rightarrow> ustring) \<Rightarrow> cell \<Rightarrow> cell" where
  "normalize_city num_str NA = NA"
| "normalize_city num_str (Str s) = Str (normalize_str s)"
| "normalize_city num_str (Num x) = Str (normalize_str (num_str x))"

subsection \<open>What "differing only in whitespace run-length, dash or case" means\<close>



subsection \<open>The shape of a normalized string\<close>


definition trimmed :: "ustring \<Rightarrow> bool" where
  "trimmed s = (s \<noteq> [] \<longrightarrow> \<not> is_space (hd s) \<and> \<not> is_space (last s))"


fun single_spaced :: "ustring \<Rightarrow> bool" where
  "single_spaced [] = True"
| "single_spaced (c # cs) =
     ((is_space c \<longrightarrow> c = blank \<and> (case cs of [] \<Rightarrow> True | d # _ \<Rightarrow> \<not> is_space d))
      \<and> single_spaced cs)"


subsection \<open>Auxiliary functions of the proofs about \<open>normalize_str\<close>\<close>

text \<open>
  Lowering and dash unification act on single characters, so the two steps are one
  character map. \<open>canon\<close> computes right-strip, that map and the collapse in one pass
  from the left; the proofs show that it agrees with the three steps of the source.
\<close>

definition fold_char :: "uchar \<Rightarrow> uchar" where
  "fold_char c = (if is_dash (lower_char c) then hyphen else lower_char c)"

definition rstrip :: "ustring \<Rightarrow> ustring" where
  "rstrip s = rev (dropWhile is_space (rev s))"

function canon :: "ustring \<Rightarrow> ustring" where
  "canon [] = []"
| "canon (c # cs) =
     (if is_space c
      then (if dropWhile is_space cs = [] then [] else blank # canon (dropWhile is_space cs))
      else fold_char c # canon cs)"
  by pat_completeness auto
termination
  by (relation "measure length") (auto simp: less_Suc_eq_le length_dropWhile_le)

section \<open>The module's tables\<close>

text \<open>\<open>CITY_MAPPING\<close> (lines 68 to 77), in the order of the dictionary literal.\<close>

definition CITY_MAPPING :: "(ustring \<times> ustring) list" where
  "CITY_MAPPING =
    [(ustr ''las vegas-henderson-paradise'', ustr ''las vegas-henderson-north las vegas''),
     (ustr ''denver-aurora-lakewood'', ustr ''denver-aurora-centennial''),
     (ustr ''houston-the woodlands-sugar land'', ustr ''houston-pasadena-the woodlands''),
     (ustr ''austin-round rock-georgetown'', ustr ''austin-round rock-san marcos''),
     (ustr ''miami-fort lauderdale-pompano beach'', ustr ''miami-fort lauderdale-west palm beach''),
     (ustr ''san francisco-oakland-berkeley'', ustr ''san francisco-oakland-fremont''),
     (ustr ''dc_metro'', ustr ''washington-arlington-alexandria''),
     (ustr ''atlanta-sandy springs-alpharetta'', ustr ''atlanta-sandy springs-roswell'')]"

text \<open>
  A Python dictionary built from a sequence of items: a later item with the same key
  replaces an earlier one.
\<close>

definition dict_of :: "('k \<times> 'v) list \<Rightarrow> ('k \<rightharpoonup> 'v)" where
  "dict_of kvs = map_of (rev kvs)"

text \<open>
  Line 103: the comprehension normalizes every key and every value of
  \<open>CITY_MAPPING\<close>; both are strings, so \<open>normalize_city\<close> acts on them as
  \<open>normalize_str\<close>.
\<close>

definition norm_mapping :: "(ustring \<times> ustring) list" where
  "norm_mapping = map (\<lambda>(k, v). (normalize_str k, normalize_str v)) CITY_MAPPING"

text \<open>
  \<open>Series.replace\<close> with a dictionary: a cell equal to a key becomes that key's value;
  every other cell, a missing one included, stays. The keys are strings.
\<close>

fun replace_cell :: "(ustring \<rightharpoonup> ustring) \<Rightarrow> cell \<Rightarrow> cell" where
  "replace_cell d (Str s) = (case d s of Some v \<Rightarrow> Str v | None \<Rightarrow> Str s)"
| "replace_cell d c = c"

text \<open>Lines 101 to 104 on one cell: normalization, then alias resolution.\<close>

definition resolve_city :: "(real \<Rightarrow> ustring) \<Rightarrow> cell \<Rightarrow> cell" where
  "resolve_city num_str c = replace_cell (dict_of norm_mapping) (normalize_city num_str c)"

text \<open>\<open>canonical_coords\<close> (lines 28 to 59) and the table \<open>metros\<close> built from it.\<close>

definition canonical_coords :: "(ustring \<times> real \<times> real) list" where
  "canonical_coords =
    [(ustr ''Atlanta-Sandy Springs-Roswell'', 33.7490, -84.3880),
     (ustr ''Pittsburgh'', 40.4406, -79.9959),
     (ustr ''Boston-Cambridge-Newton'', 42.3601, -71.0589),
     (ustr ''Tampa-St. Petersburg-Clearwater'', 27.9506, -82.4572),
     (ustr ''Baltimore-Columbia-Towson'', 39.2904, -76.6122),
     (ustr ''Portland-Vancouver-Hillsboro'', 45.5152, -122.6784),
     (ustr ''Philadelphia-Camden-Wilmington'', 39.9526, -75.1652),
     (ustr ''New York-Newark-Jersey City'', 40.7128, -74.0060),
     (ustr ''Chicago-Naperville-Elgin'', 41.8781, -87.6298),
     (ustr ''Orlando-Kissimmee-Sanford'', 28.5383, -81.3792),
     (ustr ''Seattle-Tacoma-Bellevue'', 47.6062, -122.3321),
     (ustr ''San Francisco-Oakland-Fremont'', 37.7749, -122.4194),
     (ustr ''San Diego-Chula Vista-Carlsbad'', 32.7157, -117.1611),
     (ustr ''Austin-Round Rock-San Marcos'', 30.2672, -97.7431),
     (ustr ''St. Louis'', 38.6270, -90.1994),
     (ustr ''Sacramento-Roseville-Folsom'', 38.5816, -121.4944),
     (ustr ''Phoenix-Mesa-Chandler'', 33.4484, -112.0740),
     (ustr ''Riverside-San Bernardino-Ontario'', 34.0522, -117.2898),
     (ustr ''San Antonio-New Braunfels'', 29.4241, -98.4936),
     (ustr ''Detroit-Warren-Dearborn'', 42.3314, -83.0458),
     (ustr ''Cincinnati'', 39.1031, -84.5120),
     (ustr ''Houston-Pasadena-The Woodlands'', 29.7604, -95.3698),
     (ustr ''Charlotte-Concord-Gastonia'', 35.2271, -80.8431),
     (ustr ''Denver-Aurora-Centennial'', 39.7392, -104.9903),
     (ustr ''Los Angeles-Long Beach-Anaheim'', 34.0522, -118.2437),
     (ustr ''Washington-Arlington-Alexandria'', 38.9072, -77.0369),
     (ustr ''Dallas-Fort Worth-Arlington'', 32.7767, -96.7970),
     (ustr ''Minneapolis-St. Paul-Bloomington'', 44.9778, -93.2650),
     (ustr ''Las Vegas-Henderson-North Las Vegas'', 36.1699, -115.1398),
     (ustr ''Miami-Fort Lauderdale-West Palm Beach'', 25.7617, -80.1918)]"

section \<open>Tables\<close>

text \<open>
  A \<open>DataFrame\<close> is its column labels and its rows, each row holding one cell per
  column. Tables read from CSV have distinct labels (\<open>read_csv\<close> renames a repeated
  one); \<open>wf_frame\<close> says both. A label is looked up at its first position.
\<close>

type_synonym row = "cell list"

record frame =
  columns :: "string list"
  rows :: "row list"

definition wf_frame :: "frame \<Rightarrow> bool" where
  "wf_frame df = (distinct (columns df) \<and> (\<forall>r \<in> set (rows df). length r = length (columns df)))"

definition metros_initial :: frame where
  "metros_initial =
     \<lparr>columns = [''metro_full'', ''lat'', ''lng''],
      rows = map (\<lambda>(name, lat, lng). [Str name, Num lat, Num lng]) canonical_coords\<rparr>"

fun index_of :: "string \<Rightarrow> string list \<Rightarrow> nat option" where
  "index_of x [] = None"
| "index_of x (y # ys) = (if x = y then Some 0 else map_option Suc (index_of x ys))"

text \<open>\<open>df[c] = df[c].apply(f)\<close> and \<open>df[c] = df[c].replace(d)\<close>, for the column at index \<open>i\<close>.\<close>

definition apply_column :: "(cell \<Rightarrow> cell) \<Rightarrow> nat \<Rightarrow> frame \<Rightarrow> frame" where
  "apply_column f i df = df\<lparr>rows := map (\<lambda>r. r[i := f (r ! i)]) (rows df)\<rparr>"

text \<open>Lines 101 to 104 on the table: the normalizer, on the column at index \<open>i\<close>.\<close>

definition normalize_cities :: "(real \<Rightarrow> ustring) \<Rightarrow> nat \<Rightarrow> frame \<Rightarrow> frame" where
  "normalize_cities num_str i df =
     apply_column (replace_cell (dict_of norm_mapping)) i
       (apply_column (normalize_city num_str) i df)"


section \<open>Exceptions and printed lines\<close>

type_synonym path = "string \<times> string"

text \<open>
  A path is a directory and a file name. The exceptions are raised by pandas, not by
  a \<open>raise\<close> of the module: \<open>FileNotFoundError\<close> by \<open>read_csv\<close>, \<open>TypeError\<close> by
  comparing a string with a number, \<open>KeyError\<close> by selecting a column that is not
  there, \<open>ValueError\<close> and \<open>MergeError\<close> by \<open>merge\<close>.
\<close>

datatype error =
    FileNotFoundError path
  | TypeError
  | KeyError string
  | ValueError
  | MergeError

text \<open>One constructor for each \<open>print\<close> of the module, with the values it interpolates.\<close>

datatype message =
    SkipNoCity
  | SkipAlreadyPresent
  | SkipMetrosColumns
  | StillMissing "cell list"
  | AllMatched
  | DroppedDuplicates nat
  | RemovedOutliers nat
  | Saved string path "nat \<times> nat"

section \<open>\<open>clean_and_merge\<close>\<close>

text \<open>
  \<open>metros[ ["metro_full", "lat", "lng"] ]\<close>: the named columns, in the order asked for.
\<close>

definition select_columns :: "string list \<Rightarrow> frame \<Rightarrow> error + frame" where
  "select_columns names df =
     (case filter (\<lambda>n. n \<notin> set (columns df)) names of
        n # _ \<Rightarrow> Inl (KeyError n)
      | [] \<Rightarrow> Inr \<lparr>columns = names,
                   rows = map (\<lambda>r. map (\<lambda>n. r ! the (index_of n (columns df))) names) (rows df)\<rparr>)"

text \<open>
  The dtype pandas infers for a column of missing values and strings: \<open>object\<close> when a
  string occurs, \<open>float64\<close> otherwise.
\<close>

definition object_dtype :: "cell list \<Rightarrow> bool" where
  "object_dtype cs = (\<exists>c \<in> set cs. case c of Str _ \<Rightarrow> True | _ \<Rightarrow> False)"

text \<open>
  \<open>left.merge(right, how="left", left_on=..., right_on=...)\<close> for the key columns at
  index \<open>i\<close> of the left and \<open>j\<close> of the right table, as pandas 2 does it:
  \<^item> when both tables have rows and one key column is \<open>object\<close> and the other
    \<open>float64\<close>, \<open>ValueError\<close>;
  \<^item> a label both tables have gets the suffix \<open>_x\<close> on the left and \<open>_y\<close> on the
    right; when the labels of the result are not distinct, \<open>MergeError\<close>;
  \<^item> the rows of the left table in their order, each joined with every right row of
    the same key in the right table's order (missing keys match each other), or with
    missing values when there is none.
\<close>

definition merge_left :: "frame \<Rightarrow> nat \<Rightarrow> frame \<Rightarrow> nat \<Rightarrow> error + frame" where
  "merge_left left i right j =
     (let lkeys = map (\<lambda>r. r ! i) (rows left);
          rkeys = map (\<lambda>r. r ! j) (rows right)
      in if lkeys \<noteq> [] \<and> rkeys \<noteq> [] \<and> object_dtype lkeys \<noteq> object_dtype rkeys
         then Inl ValueError
         else
           let lcols = map (\<lambda>c. if c \<in> set (columns right) then c @ ''_x'' else c) (columns left);
               rcols = map (\<lambda>c. if c \<in> set (columns left) then c @ ''_y'' else c) (columns right)
           in if \<not> distinct (lcols @ rcols) then Inl MergeError
              else Inr \<lparr>columns = lcols @ rcols,
                        rows = concat (map (\<lambda>l.
                                 (case filter (\<lambda>r. r ! j = l ! i) (rows right) of
                                    [] \<Rightarrow> [l @ replicate (length (columns right)) NA]
                                  | ms \<Rightarrow> map (\<lambda>r. l @ r) ms)) (rows left))\<rparr>)"

text \<open>\<open>df.drop(columns=[name], errors="ignore")\<close>.\<close>

definition drop_column :: "string \<Rightarrow> frame \<Rightarrow> frame" where
  "drop_column name df =
     (case index_of name (columns df) of
        None \<Rightarrow> df
      | Some k \<Rightarrow> \<lparr>columns = take k (columns df) @ drop (Suc k) (columns df),
                     rows = map (\<lambda>r. take k r @ drop (Suc k) r) (rows df)\<rparr>)"

text \<open>\<open>Series.unique()\<close>: the values in the order of their first appearance.\<close>

definition unique :: "'a list \<Rightarrow> 'a list" where
  "unique xs = rev (remdups (rev xs))"

text \<open>
  \<open>clean_and_merge\<close> reads and assigns the module's global \<open>metros\<close>: the function
  takes the table as it stands and returns it as the call leaves it, then the lines the
  call prints, then the table it returns or the exception it raises.
\<close>

definition clean_and_merge ::
  "(real \<Rightarrow> ustring) \<Rightarrow> frame \<Rightarrow> frame \<Rightarrow> frame \<times> message list \<times> (error + frame)" where
  "clean_and_merge num_str metros df =
     (case index_of ''city_full'' (columns df) of
        None \<Rightarrow> (metros, [SkipNoCity], Inr df)
      | Some i \<Rightarrow>
          let df1 = normalize_cities num_str i df
          in if ''lat'' \<in> set (columns df1) \<and> ''lng'' \<in> set (columns df1)
             then (metros, [SkipAlreadyPresent], Inr df1)
             else if ''metro_full'' \<notin> set (columns metros)
                     \<or> \<not> (''lat'' \<in> set (columns metros) \<and> ''lng'' \<in> set (columns metros))
             then (metros, [SkipMetrosColumns], Inr df1)
             else
               let metros1 = apply_column (normalize_city num_str)
                               (the (index_of ''metro_full'' (columns metros))) metros
               in (case select_columns [''metro_full'', ''lat'', ''lng''] metros1 of
                     Inl e \<Rightarrow> (metros1, [], Inl e)
                   | Inr right \<Rightarrow>
                      (case merge_left df1 i right 0 of
                         Inl e \<Rightarrow> (metros1, [], Inl e)
                       | Inr merged \<Rightarrow>
                           let df2 = drop_column ''metro_full'' merged
                           in (case index_of ''lat'' (columns df2) of
                                 None \<Rightarrow> (metros1, [], Inl (KeyError ''lat''))
                               | Some a \<Rightarrow>
                                  (case index_of ''city_full'' (columns df2) of
                                     None \<Rightarrow> (metros1, [], Inl (KeyError ''city_full''))
                                   | Some c \<Rightarrow>
                                       let missing = unique (map (\<lambda>r. r ! c)
                                                       (filter (\<lambda>r. r ! a = NA) (rows df2)))
                                       in (metros1,
                                           [if missing \<noteq> [] then StillMissing missing
                                            else AllMatched],
                                           Inr df2))))))"

section \<open>\<open>drop_duplicates\<close> and \<open>remove_outliers\<close>\<close>

text \<open>
  \<open>df.columns.difference(["date", "year"])\<close>: the positions of the columns that are
  compared, and the cells of a row at these positions.
\<close>

definition key_positions :: "frame \<Rightarrow> nat list" where
  "key_positions df =
     filter (\<lambda>k. columns df ! k \<noteq> ''date'' \<and> columns df ! k \<noteq> ''year'')
       [0 ..< length (columns df)]"

definition row_key :: "nat list \<Rightarrow> row \<Rightarrow> cell list" where
  "row_key ks r = map (\<lambda>k. r ! k) ks"

text \<open>
  \<open>drop_duplicates(subset=..., keep=False)\<close> keeps a row when its key occurs once among
  the keys of all rows; two missing values count as equal. With no column to compare
  (every column is \<open>date\<close> or \<open>year\<close>) all keys are empty and equal; what pandas does
  with an empty subset depends on its version, and the theorems below are about tables
  with at least one compared column.
\<close>

definition drop_duplicates :: "frame \<Rightarrow> message list \<times> frame" where
  "drop_duplicates df =
     (let ks = key_positions df;
          keys = map (row_key ks) (rows df);
          kept = filter (\<lambda>r. count_list keys (row_key ks r) = 1) (rows df)
      in ([DroppedDuplicates (length (rows df) - length kept)], df\<lparr>rows := kept\<rparr>))"

text \<open>
  \<open>df["median_list_price"] <= 19_000_000\<close>, cell by cell: a number is compared, a
  missing value gives \<open>False\<close>, a string raises \<open>TypeError\<close>.
\<close>

fun within_threshold :: "cell \<Rightarrow> bool" where
  "within_threshold (Num p) = (p \<le> 19000000)"
| "within_threshold c = False"

definition is_text :: "cell \<Rightarrow> bool" where
  "is_text c = (case c of Str _ \<Rightarrow> True | _ \<Rightarrow> False)"

definition remove_outliers :: "frame \<Rightarrow> message list \<times> (error + frame)" where
  "remove_outliers df =
     (case index_of ''median_list_price'' (columns df) of
        None \<Rightarrow> ([], Inr df)
      | Some i \<Rightarrow>
          if \<exists>r \<in> set (rows df). is_text (r ! i) then ([], Inl TypeError)
          else
            let kept = filter (\<lambda>r. within_threshold (r ! i)) (rows df)
            in ([RemovedOutliers (length (rows df) - length kept)], Inr (df\<lparr>rows := kept\<rparr>)))"

section \<open>\<open>preprocess_split\<close> and \<open>run_preprocess\<close>\<close>

text \<open>
  What the two functions read and change: the global \<open>metros\<close>, the files (a file
  holds the table that \<open>read_csv\<close> gives for it and \<open>to_csv\<close> writes to it; a file
  that is missing or cannot be read holds none) and the printed lines.
\<close>

record world =
  metros :: frame
  files :: "path \<rightharpoonup> frame"
  printed :: "message list"

definition preprocess_split ::
  "(real \<Rightarrow> ustring) \<Rightarrow> string \<Rightarrow> string \<Rightarrow> string \<Rightarrow> world \<Rightarrow> world \<times> (error + frame)" where
  "preprocess_split num_str split raw_dir processed_dir w =
     (let path = (raw_dir, split @ ''.csv'')
      in case files w path of
           None \<Rightarrow> (w, Inl (FileNotFoundError path))
         | Some df \<Rightarrow>
            (case clean_and_merge num_str (metros w) df of
               (m1, out1, Inl e) \<Rightarrow> (w\<lparr>metros := m1, printed := printed w @ out1\<rparr>, Inl e)
             | (m1, out1, Inr df1) \<Rightarrow>
                (case drop_duplicates df1 of
                   (out2, df2) \<Rightarrow>
                    (case remove_outliers df2 of
                       (out3, Inl e) \<Rightarrow>
                         (w\<lparr>metros := m1, printed := printed w @ out1 @ out2 @ out3\<rparr>, Inl e)
                     | (out3, Inr df3) \<Rightarrow>
                         let out_path = (processed_dir, ''clean_'' @ split @ ''.csv'')
                         in (w\<lparr>metros := m1,
                               files := (files w)(out_path \<mapsto> df3),
                               printed := printed w @ out1 @ out2 @ out3
                                 @ [Saved split out_path
                                      (length (rows df3), length (columns df3))]\<rparr>,
                             Inr df3)))))"

text \<open>
  The loop of \<open>run_preprocess\<close> has no handler: an exception of \<open>preprocess_split\<close>
  leaves the loop and the function. The result is the world and the exception, if any.
\<close>

fun run_preprocess ::
  "(real \<Rightarrow> ustring) \<Rightarrow> string list \<Rightarrow> string \<Rightarrow> string \<Rightarrow> world \<Rightarrow> world \<times> error option" where
  "run_preprocess num_str [] raw_dir processed_dir w = (w, None)"
| "run_preprocess num_str (s # ss) raw_dir processed_dir w =
     (case preprocess_split num_str s raw_dir processed_dir w of
        (w1, Inl e) \<Rightarrow> (w1, Some e)
      | (w1, Inr df) \<Rightarrow> run_preprocess num_str ss raw_dir processed_dir w1)"


section \<open>Notions used in the statements about the filters\<close>


definition numeric_column :: "nat \<Rightarrow> frame \<Rightarrow> bool" where
  "numeric_column i df = (\<forall>r \<in> set (rows df). \<not> is_text (r ! i))"

section \<open>Example inputs\<close>

text \<open>
  A table without a city column, a world in which the \<open>train\<close> and \<open>holdout\<close> files
  exist and the \<open>eval\<close> file does not, and a table with one record for the city
  \<open>Denver-Aurora-Lakewood\<close> and no coordinates.
\<close>

definition example_table :: frame where
  "example_table = \<lparr>columns = [''median_list_price''], rows = [ [Num 100] ]\<rparr>"

definition example_world :: world where
  "example_world =
     \<lparr>metros = metros_initial,
      files = [(''raw'', ''train.csv'') \<mapsto> example_table,
               (''raw'', ''holdout.csv'') \<mapsto> example_table],
      printed = []\<rparr>"

definition denver_table :: frame where
  "denver_table =
     \<lparr>columns = [''city_full''], rows = [ [Str (ustr ''Denver-Aurora-Lakewood'')] ]\<rparr>"

definition example_world_after_train :: world where
  "example_world_after_train =
     example_world
       \<lparr>files := (files example_world)((''out'', ''clean_train.csv'') \<mapsto> example_table),
        printed := [SkipNoCity, DroppedDuplicates 0, RemovedOutliers 0,
                    Saved ''train'' (''out'', ''clean_train.csv'') (1, 1)]\<rparr>"

section \<open>Properties of the normalizer\<close>

lemma is_space_lower_char [simp]: "is_space (lower_char c) = is_space c"
  by (cases c) (auto simp: Let_def)

lemma lower_char_idem [simp]: "lower_char (lower_char c) = lower_char c"
  by (cases c) (auto simp: Let_def)



lemma not_space_dash: "is_dash c \<Longrightarrow> \<not> is_space c"
  by (auto simp: is_dash_def hyphen_def)

lemma lower_char_hyphen [simp]: "lower_char hyphen = hyphen"
  by (simp add: hyphen_def)

lemma lower_char_blank [simp]: "lower_char blank = blank"
  by (simp add: blank_def)

lemma is_space_blank [simp]: "is_space blank" by (simp add: blank_def)
lemma not_space_hyphen [simp]: "\<not> is_space hyphen" by (simp add: hyphen_def)
lemma not_dash_blank [simp]: "\<not> is_dash blank" by (simp add: is_dash_def hyphen_def blank_def)

lemma unify_lower: "unify_dashes (lower s) = map fold_char s"
  by (simp add: unify_dashes_def lower_def fold_char_def)

lemma is_space_fold_char [simp]: "is_space (fold_char c) = is_space c"
  by (auto simp: fold_char_def dest: not_space_dash)


lemma strip_rstrip: "strip s = rstrip (dropWhile is_space s)"
  by (simp add: strip_def rstrip_def)

lemma rstrip_Nil [simp]: "rstrip [] = []" by (simp add: rstrip_def)

lemma rstrip_Cons:
  "rstrip (c # xs) =
     (if \<forall>x \<in> set xs. is_space x then (if is_space c then [] else [c]) else c # rstrip xs)"
  by (auto simp: rstrip_def dropWhile_append)

lemma rstrip_all_space: "(\<forall>x \<in> set xs. is_space x) \<Longrightarrow> rstrip xs = []"
  by (simp add: rstrip_def)

lemma dropWhile_rstrip: "dropWhile is_space (rstrip xs) = rstrip (dropWhile is_space xs)"
  by (induction xs) (auto simp: rstrip_Cons rstrip_all_space)

lemma dropWhile_map_fold:
  "dropWhile is_space (map fold_char xs) = map fold_char (dropWhile is_space xs)"
  by (induction xs) auto

lemma dropWhile_Nil_iff: "(dropWhile is_space xs = []) = (\<forall>x \<in> set xs. is_space x)"
  by (induction xs) auto

lemma collapse_canon: "collapse_spaces (map fold_char (rstrip s)) = canon s"
proof (induction s rule: canon.induct)
  case 1
  show ?case by simp
next
  case (2 c cs)
  show ?case
  proof (cases "is_space c")
    case True
    show ?thesis
    proof (cases "dropWhile is_space cs = []")
      case e: True
      then have "\<forall>x \<in> set cs. is_space x" by (simp add: dropWhile_Nil_iff)
      with True e show ?thesis by (simp add: rstrip_Cons)
    next
      case ne: False
      then have "\<not> (\<forall>x \<in> set cs. is_space x)" by (simp add: dropWhile_Nil_iff)
      with True ne 2(1) show ?thesis
        by (simp add: rstrip_Cons dropWhile_map_fold dropWhile_rstrip)
    qed
  next
    case False
    with 2(2) show ?thesis
      by (auto simp: rstrip_Cons rstrip_all_space)
  qed
qed

lemma normalize_str_canon: "normalize_str s = canon (dropWhile is_space s)"
  by (simp add: normalize_str_def unify_lower strip_rstrip collapse_canon)





lemma fold_char_lower [simp]: "lower_char (fold_char c) = fold_char c"
  by (simp add: fold_char_def)





lemma dropWhile_hd: "dropWhile is_space xs \<noteq> [] \<Longrightarrow> \<not> is_space (hd (dropWhile is_space xs))"
  using hd_dropWhile by blast

lemma canon_hd: "s \<noteq> [] \<Longrightarrow> \<not> is_space (hd s) \<Longrightarrow> canon s \<noteq> [] \<and> \<not> is_space (hd (canon s))"
  by (cases s) auto








section \<open>Properties of alias resolution\<close>

lemma canon_plain:
  "single_spaced s \<Longrightarrow> (s \<noteq> [] \<longrightarrow> \<not> is_space (last s)) \<Longrightarrow> canon s = map fold_char s"
proof (induction s)
  case Nil
  show ?case by simp
next
  case (Cons c cs)
  show ?case
  proof (cases "is_space c")
    case True
    with Cons.prems obtain d ds where cs: "cs = d # ds" and d: "\<not> is_space d" and b: "c = blank"
      by (cases cs) auto
    from Cons cs have "canon cs = map fold_char cs" by simp
    with True cs d b show ?thesis by (simp add: fold_char_def)
  next
    case False
    with Cons show ?thesis by (cases cs) auto
  qed
qed

lemma normalize_str_plain:
  assumes "trimmed s" and "single_spaced s"
  shows "normalize_str s = map fold_char s"
proof (cases s)
  case Nil
  then show ?thesis by (simp add: normalize_str_canon)
next
  case (Cons c cs)
  with assms(1) have "\<not> is_space c" and "\<not> is_space (last s)"
    by (auto simp: trimmed_def)
  with Cons assms(2) show ?thesis
    using canon_plain [of s] by (simp add: normalize_str_canon)
qed

lemma norm_mapping_CITY_MAPPING: "norm_mapping = CITY_MAPPING"
  unfolding norm_mapping_def CITY_MAPPING_def
  by (simp add: normalize_str_plain trimmed_def ustr_def blank_def fold_char_def is_dash_def hyphen_def)


lemma canon_not_space_start:
  "s \<noteq> [] \<Longrightarrow> \<not> is_space (hd s) \<Longrightarrow> dropWhile is_space (canon s) = canon s"
  using canon_hd [of s] by (cases "canon s") auto

lemma fold_char_idem [simp]: "fold_char (fold_char c) = fold_char c"
  by (simp add: fold_char_def)

lemma canon_idem: "canon (canon s) = canon s"
proof (induction s rule: canon.induct)
  case (2 c cs)
  show ?case
  proof (cases "is_space c")
    case True
    show ?thesis
    proof (cases "dropWhile is_space cs = []")
      case False
      then have h: "canon (dropWhile is_space cs) \<noteq> []
                    \<and> \<not> is_space (hd (canon (dropWhile is_space cs)))"
        using canon_hd dropWhile_hd by blast
      then have "dropWhile is_space (canon (dropWhile is_space cs)) = canon (dropWhile is_space cs)"
        by (cases "canon (dropWhile is_space cs)") auto
      with True False h 2(1) show ?thesis by auto
    qed (use True in simp)
  next
    case False
    with 2(2) show ?thesis by simp
  qed
qed simp

lemma normalize_str_idem: "normalize_str (normalize_str s) = normalize_str s"
proof (cases "dropWhile is_space s = []")
  case True
  show ?thesis by (simp add: normalize_str_canon True)
next
  case False
  then have "dropWhile is_space (canon (dropWhile is_space s)) = canon (dropWhile is_space s)"
    using canon_not_space_start dropWhile_hd by blast
  then show ?thesis by (simp add: normalize_str_canon canon_idem)
qed

lemma norm_mapping_values_normal:
  assumes "(k, v) \<in> set norm_mapping"
  shows "normalize_str v = v"
proof -
  from assms obtain k0 v0 where "(k0, v0) \<in> set CITY_MAPPING" and "v = normalize_str v0"
    by (auto simp: norm_mapping_def)
  then show ?thesis by (simp add: normalize_str_idem)
qed

lemma norm_mapping_values_unmapped:
  "\<forall>kv \<in> set CITY_MAPPING. dict_of CITY_MAPPING (snd kv) = None"
  by (simp add: CITY_MAPPING_def dict_of_def ustr_def)

lemma dict_of_SomeD: "dict_of kvs k = Some v \<Longrightarrow> (k, v) \<in> set kvs"
  by (auto simp: dict_of_def dest: map_of_SomeD)

lemma norm_mapping_value:
  assumes "(k, v) \<in> set norm_mapping"
  shows "normalize_str v = v \<and> dict_of norm_mapping v = None"
  using assms norm_mapping_values_normal [OF assms] norm_mapping_values_unmapped
  by (fastforce simp: norm_mapping_CITY_MAPPING)

lemma resolve_city_Str:
  "resolve_city f (Str s) =
     Str (case dict_of norm_mapping (normalize_str s) of Some v \<Rightarrow> v | None \<Rightarrow> normalize_str s)"
  by (simp add: resolve_city_def split: option.splits)

lemma resolve_city_normal:
  assumes "normalize_str t = t"
  shows "resolve_city f (resolve_city f (Str t)) = resolve_city f (Str t)"
proof (cases "dict_of norm_mapping t")
  case None
  with assms show ?thesis by (simp add: resolve_city_Str)
next
  case (Some v)
  then have "(t, v) \<in> set norm_mapping" by (rule dict_of_SomeD)
  then have "normalize_str v = v \<and> dict_of norm_mapping v = None" by (rule norm_mapping_value)
  with Some assms show ?thesis by (simp add: resolve_city_Str)
qed

lemma resolve_city_of_normalized:
  "resolve_city f (Str (normalize_str s)) = resolve_city f (Str s)"
  by (simp add: resolve_city_Str normalize_str_idem split: option.splits)

lemma resolve_city_twice: "resolve_city f (resolve_city f c) = resolve_city f c"
proof (cases c)
  case NA
  then show ?thesis by (simp add: resolve_city_def)
next
  case (Num x)
  have "resolve_city f (Num x) = resolve_city f (Str (normalize_str (f x)))"
    by (simp add: resolve_city_def normalize_str_idem)
  with Num show ?thesis by (simp add: resolve_city_normal normalize_str_idem)
next
  case (Str s)
  have "resolve_city f (Str s) = resolve_city f (Str (normalize_str s))"
    by (simp add: resolve_city_of_normalized)
  with Str show ?thesis by (simp add: resolve_city_normal normalize_str_idem)
qed

text \<open>
  Claim C2. Normalization followed by alias resolution is idempotent: applied to the
  cell it has produced it gives the same cell; a value of \<open>CITY_MAPPING\<close> and any
  normalized string that the normalized table does not map are returned unchanged.
\<close>

theorem resolve_city_idempotent:
  "resolve_city num_str (resolve_city num_str c) = resolve_city num_str c
   \<and> (s \<in> snd ` set CITY_MAPPING \<longrightarrow> resolve_city num_str (Str s) = Str s)
   \<and> (normalize_str s = s \<and> dict_of norm_mapping s = None
        \<longrightarrow> resolve_city num_str (Str s) = Str s)"
proof (intro conjI impI)
  show "resolve_city num_str (resolve_city num_str c) = resolve_city num_str c"
    by (rule resolve_city_twice)
next
  assume "s \<in> snd ` set CITY_MAPPING"
  then obtain k where "(k, s) \<in> set norm_mapping"
    by (auto simp: norm_mapping_CITY_MAPPING)
  then have "normalize_str s = s \<and> dict_of norm_mapping s = None" by (rule norm_mapping_value)
  then show "resolve_city num_str (Str s) = Str s"
    by (simp add: resolve_city_Str)
next
  assume "normalize_str s = s \<and> dict_of norm_mapping s = None"
  then show "resolve_city num_str (Str s) = Str s"
    by (simp add: resolve_city_Str)
qed

theorem resolve_city_idempotent_witness:
  "ustr ''denver-aurora-centennial'' \<in> snd ` set CITY_MAPPING
   \<and> resolve_city (\<lambda>x. []) (Str (ustr ''denver-aurora-centennial''))
       = Str (ustr ''denver-aurora-centennial'')
   \<and> normalize_str (ustr ''st. louis'') = ustr ''st. louis''
   \<and> dict_of norm_mapping (ustr ''st. louis'') = None
   \<and> resolve_city (\<lambda>x. []) (Str (ustr ''st. louis'')) = Str (ustr ''st. louis'')
   \<and> resolve_city (\<lambda>x. []) (resolve_city (\<lambda>x. []) (Str (ustr ''Denver-Aurora-Lakewood'')))
       = resolve_city (\<lambda>x. []) (Str (ustr ''Denver-Aurora-Lakewood''))"
proof -
  have a: "ustr ''denver-aurora-centennial'' \<in> snd ` set CITY_MAPPING"
    by (simp add: CITY_MAPPING_def)
  have b: "normalize_str (ustr ''st. louis'') = ustr ''st. louis''"
    by (simp add: normalize_str_plain trimmed_def ustr_def blank_def fold_char_def is_dash_def
          hyphen_def)
  have c: "dict_of norm_mapping (ustr ''st. louis'') = None"
    by (simp add: norm_mapping_CITY_MAPPING CITY_MAPPING_def dict_of_def ustr_def)
  show ?thesis
    using resolve_city_idempotent
            [of "\<lambda>x. []" "Str (ustr ''Denver-Aurora-Lakewood'')" "ustr ''denver-aurora-centennial''"]
          resolve_city_idempotent
            [of "\<lambda>x. []" "Str (ustr ''Denver-Aurora-Lakewood'')" "ustr ''st. louis''"]
          a b c
    by blast
qed


section \<open>Properties of \<open>clean_and_merge\<close>\<close>

lemma index_of_Some: "index_of x xs = Some i \<Longrightarrow> i < length xs \<and> xs ! i = x"
  by (induction xs arbitrary: i) (auto split: if_splits)

lemma index_of_None: "(index_of x xs = None) = (x \<notin> set xs)"
  by (induction xs) auto

lemma columns_apply_column [simp]: "columns (apply_column g i df) = columns df"
  by (simp add: apply_column_def)

lemma columns_normalize_cities [simp]: "columns (normalize_cities f i df) = columns df"
  by (simp add: normalize_cities_def)

lemma length_rows_normalize_cities [simp]:
  "length (rows (normalize_cities f i df)) = length (rows df)"
  by (simp add: normalize_cities_def apply_column_def)

lemma rows_normalize_cities_other:
  "k < length (rows df) \<Longrightarrow> j \<noteq> i \<Longrightarrow> rows (normalize_cities f i df) ! k ! j = rows df ! k ! j"
  by (simp add: normalize_cities_def apply_column_def)

lemma column_normalize_cities_other:
  "j \<noteq> i \<Longrightarrow> map (\<lambda>r. r ! j) (rows (normalize_cities f i df)) = map (\<lambda>r. r ! j) (rows df)"
  by (simp add: normalize_cities_def apply_column_def)



text \<open>
  Claim C4. For every table in which both \<open>lat\<close> and \<open>lng\<close> are present,
  \<open>clean_and_merge\<close> returns a table with the same columns and the same number of
  rows in which the \<open>lat\<close> and the \<open>lng\<close> of every row are those of the input.
\<close>

theorem clean_and_merge_keeps_coordinates:
  assumes "index_of ''lat'' (columns df) = Some a" and "index_of ''lng'' (columns df) = Some b"
  shows "\<exists>out df'. clean_and_merge num_str m df = (m, out, Inr df')
           \<and> columns df' = columns df
           \<and> length (rows df') = length (rows df)
           \<and> (\<forall>k < length (rows df). rows df' ! k ! a = rows df ! k ! a
                                     \<and> rows df' ! k ! b = rows df ! k ! b)"
proof (cases "index_of ''city_full'' (columns df)")
  case None
  then show ?thesis by (simp add: clean_and_merge_def)
next
  case (Some i)
  from assms have in_cols: "''lat'' \<in> set (columns df)" "''lng'' \<in> set (columns df)"
    by (metis index_of_None option.distinct(1))+
  from Some assms have "a \<noteq> i" and "b \<noteq> i"
    by (auto dest!: index_of_Some)
  with Some in_cols show ?thesis
    by (simp add: clean_and_merge_def Let_def rows_normalize_cities_other)
qed

theorem clean_and_merge_keeps_coordinates_witness:
  "\<exists>out df'. clean_and_merge (\<lambda>x. []) metros_initial
        \<lparr>columns = [''city_full'', ''lat'', ''lng''],
         rows = [ [Str (ustr ''Denver-Aurora-Lakewood''), Num 1, Num 2] ]\<rparr>
       = (metros_initial, out, Inr df')
     \<and> columns df' = [''city_full'', ''lat'', ''lng'']
     \<and> length (rows df') = 1
     \<and> rows df' ! 0 ! 1 = Num 1 \<and> rows df' ! 0 ! 2 = Num 2"
  using clean_and_merge_keeps_coordinates
          [of "\<lparr>columns = [''city_full'', ''lat'', ''lng''],
                rows = [ [Str (ustr ''Denver-Aurora-Lakewood''), Num 1, Num 2] ]\<rparr>"
              1 2 "\<lambda>x. []" metros_initial]
  by simp


section \<open>Properties of \<open>drop_duplicates\<close>\<close>







lemma drop_duplicates_example:
  "drop_duplicates
     \<lparr>columns = [''city_full'', ''year'', ''median_list_price''],
      rows = [ [Str (ustr ''a''), Num 2020, Num 100],
              [Str (ustr ''a''), Num 2021, Num 100],
              [Str (ustr ''b''), Num 2020, Num 100] ]\<rparr>
   = ([DroppedDuplicates 2],
      \<lparr>columns = [''city_full'', ''year'', ''median_list_price''],
       rows = [ [Str (ustr ''b''), Num 2020, Num 100] ]\<rparr>)"
  by (simp add: drop_duplicates_def key_positions_def row_key_def ustr_def)




section \<open>Properties of \<open>remove_outliers\<close>\<close>

lemma within_threshold_iff: "within_threshold c = (\<exists>p. c = Num p \<and> p \<le> 19000000)"
  by (cases c) auto

lemma remove_outliers_numeric:
  assumes "index_of ''median_list_price'' (columns df) = Some i" and "numeric_column i df"
  shows "remove_outliers df =
           ([RemovedOutliers (length (rows df)
               - length (filter (\<lambda>r. within_threshold (r ! i)) (rows df)))],
            Inr (df\<lparr>rows := filter (\<lambda>r. within_threshold (r ! i)) (rows df)\<rparr>))"
  using assms by (simp add: remove_outliers_def numeric_column_def Let_def)

text \<open>
  Claim C6. When the table has no \<open>median_list_price\<close> column, \<open>remove_outliers\<close>
  returns it unchanged. When it has one (a numeric column), a row with a price is kept
  exactly when the price does not exceed 19,000,000: a row with price 19,000,000 is
  retained, a row with price 19,000,001 is removed, and no row is added.
\<close>

theorem remove_outliers_threshold:
  "(index_of ''median_list_price'' (columns df) = None \<longrightarrow> remove_outliers df = ([], Inr df))
   \<and> (index_of ''median_list_price'' (columns df) = Some i \<and> numeric_column i df
        \<longrightarrow> (\<exists>kept. remove_outliers df
                      = ([RemovedOutliers (length (rows df) - length kept)],
                         Inr (df\<lparr>rows := kept\<rparr>))
                \<and> set kept \<subseteq> set (rows df)
                \<and> (\<forall>r p. r \<in> set (rows df) \<and> r ! i = Num p
                      \<longrightarrow> (r \<in> set kept) = (p \<le> 19000000))
                \<and> (\<forall>r \<in> set (rows df). r ! i = Num 19000000 \<longrightarrow> r \<in> set kept)
                \<and> (\<forall>r. r ! i = Num 19000001 \<longrightarrow> r \<notin> set kept)))"
proof (intro conjI impI)
  assume "index_of ''median_list_price'' (columns df) = None"
  then show "remove_outliers df = ([], Inr df)" by (simp add: remove_outliers_def)
next
  assume h: "index_of ''median_list_price'' (columns df) = Some i \<and> numeric_column i df"
  let ?kept = "filter (\<lambda>r. within_threshold (r ! i)) (rows df)"
  have "remove_outliers df
          = ([RemovedOutliers (length (rows df) - length ?kept)], Inr (df\<lparr>rows := ?kept\<rparr>))"
    using h by (simp add: remove_outliers_numeric)
  moreover have "set ?kept \<subseteq> set (rows df)" by auto
  moreover have "\<forall>r p. r \<in> set (rows df) \<and> r ! i = Num p
                   \<longrightarrow> (r \<in> set ?kept) = (p \<le> 19000000)" by auto
  moreover have "\<forall>r \<in> set (rows df). r ! i = Num 19000000 \<longrightarrow> r \<in> set ?kept" by auto
  moreover have "\<forall>r. r ! i = Num 19000001 \<longrightarrow> r \<notin> set ?kept" by auto
  ultimately show "\<exists>kept. remove_outliers df
                      = ([RemovedOutliers (length (rows df) - length kept)],
                         Inr (df\<lparr>rows := kept\<rparr>))
                \<and> set kept \<subseteq> set (rows df)
                \<and> (\<forall>r p. r \<in> set (rows df) \<and> r ! i = Num p
                      \<longrightarrow> (r \<in> set kept) = (p \<le> 19000000))
                \<and> (\<forall>r \<in> set (rows df). r ! i = Num 19000000 \<longrightarrow> r \<in> set kept)
                \<and> (\<forall>r. r ! i = Num 19000001 \<longrightarrow> r \<notin> set kept)"
    by blast
qed

theorem remove_outliers_threshold_witness:
  "remove_outliers \<lparr>columns = [''city_full''], rows = [ [Str (ustr ''a'')] ]\<rparr>
     = ([], Inr \<lparr>columns = [''city_full''], rows = [ [Str (ustr ''a'')] ]\<rparr>)
   \<and> index_of ''median_list_price'' [''city_full'', ''median_list_price''] = Some 1
   \<and> numeric_column 1 \<lparr>columns = [''city_full'', ''median_list_price''],
        rows = [ [Str (ustr ''a''), Num 19000000], [Str (ustr ''b''), Num 19000001] ]\<rparr>
   \<and> remove_outliers \<lparr>columns = [''city_full'', ''median_list_price''],
        rows = [ [Str (ustr ''a''), Num 19000000], [Str (ustr ''b''), Num 19000001] ]\<rparr>
     = ([RemovedOutliers 1],
        Inr \<lparr>columns = [''city_full'', ''median_list_price''],
             rows = [ [Str (ustr ''a''), Num 19000000] ]\<rparr>)"
proof -
  let ?df = "\<lparr>columns = [''city_full'', ''median_list_price''],
        rows = [ [Str (ustr ''a''), Num 19000000], [Str (ustr ''b''), Num 19000001] ]\<rparr>"
  have i: "index_of ''median_list_price'' (columns ?df) = Some 1" by simp
  have n: "numeric_column 1 ?df" by (simp add: numeric_column_def is_text_def)
  have "remove_outliers ?df = ([RemovedOutliers 1], Inr (?df\<lparr>rows := [ [Str (ustr ''a''), Num 19000000] ]\<rparr>))"
    by (simp add: remove_outliers_def is_text_def)
  with remove_outliers_threshold [of "\<lparr>columns = [''city_full''], rows = [ [Str (ustr ''a'')] ]\<rparr>" 0]
    remove_outliers_threshold [of ?df 1] i n show ?thesis by simp
qed

text \<open>
  Claim C10. When the \<open>median_list_price\<close> column is present (a numeric column),
  \<open>remove_outliers\<close> keeps exactly the rows whose price is present and at most
  19,000,000, in their order: every row whose price is missing is dropped.
\<close>

theorem remove_outliers_drops_missing:
  assumes "index_of ''median_list_price'' (columns df) = Some i" and "numeric_column i df"
  shows "\<exists>out df'. remove_outliers df = (out, Inr df')
           \<and> columns df' = columns df
           \<and> rows df' = filter (\<lambda>r. \<exists>p. r ! i = Num p \<and> p \<le> 19000000) (rows df)
           \<and> (\<forall>r \<in> set (rows df). r ! i = NA \<longrightarrow> r \<notin> set (rows df'))"
proof -
  have "filter (\<lambda>r. within_threshold (r ! i)) (rows df)
          = filter (\<lambda>r. \<exists>p. r ! i = Num p \<and> p \<le> 19000000) (rows df)"
    by (simp add: within_threshold_iff)
  with remove_outliers_numeric [OF assms] show ?thesis by auto
qed

theorem remove_outliers_drops_missing_witness:
  "index_of ''median_list_price'' [''city_full'', ''median_list_price''] = Some 1
   \<and> numeric_column 1 \<lparr>columns = [''city_full'', ''median_list_price''],
        rows = [ [Str (ustr ''a''), NA], [Str (ustr ''b''), Num 250000] ]\<rparr>
   \<and> (\<exists>out df'. remove_outliers \<lparr>columns = [''city_full'', ''median_list_price''],
        rows = [ [Str (ustr ''a''), NA], [Str (ustr ''b''), Num 250000] ]\<rparr> = (out, Inr df')
        \<and> [Str (ustr ''a''), NA] \<notin> set (rows df')
        \<and> rows df' = [ [Str (ustr ''b''), Num 250000] ])"
proof -
  let ?df = "\<lparr>columns = [''city_full'', ''median_list_price''],
        rows = [ [Str (ustr ''a''), NA], [Str (ustr ''b''), Num 250000] ]\<rparr>"
  have i: "index_of ''median_list_price'' (columns ?df) = Some 1" by simp
  have n: "numeric_column 1 ?df" by (simp add: numeric_column_def is_text_def)
  from remove_outliers_drops_missing [OF i n] i n show ?thesis by auto
qed


section \<open>The left join with the metro table\<close>

lemma denver_in_metros:
  "filter (\<lambda>x. x ! 0 = Str (ustr ''denver-aurora-centennial''))
     (map (\<lambda>(name, lat, lng). [Str (normalize_str name), Num lat, Num lng]) canonical_coords)
   = [ [Str (ustr ''denver-aurora-centennial''), Num 39.7392, Num (-104.9903)] ]"
  unfolding canonical_coords_def
  by (simp add: normalize_str_plain trimmed_def ustr_def blank_def fold_char_def is_dash_def
        hyphen_def char_of_def bit_Suc_0_iff)

lemma denver_alias:
  "resolve_city f (Str (ustr ''Denver-Aurora-Lakewood'')) = Str (ustr ''denver-aurora-centennial'')"
proof -
  have n: "normalize_str (ustr ''Denver-Aurora-Lakewood'') = ustr ''denver-aurora-lakewood''"
    by (simp add: normalize_str_plain trimmed_def ustr_def blank_def fold_char_def is_dash_def
          hyphen_def char_of_def bit_Suc_0_iff)
  have "dict_of norm_mapping (ustr ''denver-aurora-lakewood'') = Some (ustr ''denver-aurora-centennial'')"
    by (simp add: norm_mapping_CITY_MAPPING CITY_MAPPING_def dict_of_def ustr_def)
  with n show ?thesis by (simp add: resolve_city_Str)
qed


lemma index_of_append_left: "index_of x xs = Some i \<Longrightarrow> index_of x (xs @ ys) = Some i"
  by (induction xs arbitrary: i) (auto split: if_splits)

lemma index_of_append_right:
  "x \<notin> set xs \<Longrightarrow> index_of x (xs @ ys) = map_option (\<lambda>k. length xs + k) (index_of x ys)"
  by (induction xs) (auto split: option.splits simp: map_option_case)

lemma rows_metros_normalized:
  "rows (apply_column (normalize_city f) 0 metros_initial)
     = map (\<lambda>(name, lat, lng). [Str (normalize_str name), Num lat, Num lng]) canonical_coords"
  by (simp add: apply_column_def metros_initial_def case_prod_beta)

lemma columns_metros_initial: "columns metros_initial = [''metro_full'', ''lat'', ''lng'']"
  by (simp add: metros_initial_def)

lemma select_metros_normalized:
  "select_columns [''metro_full'', ''lat'', ''lng''] (apply_column (normalize_city f) 0 metros_initial)
     = Inr (apply_column (normalize_city f) 0 metros_initial)"
  by (simp add: select_columns_def apply_column_def metros_initial_def case_prod_beta
        numeral_2_eq_2)

lemma metros_keys_object:
  "object_dtype (map (\<lambda>r. r ! 0) (rows (apply_column (normalize_city f) 0 metros_initial)))"
  by (simp add: rows_metros_normalized object_dtype_def canonical_coords_def)

lemma clean_and_merge_join:
  assumes city: "index_of ''city_full'' (columns df) = Some i"
    and fresh: "''lat'' \<notin> set (columns df)" "''lng'' \<notin> set (columns df)"
               "''metro_full'' \<notin> set (columns df)"
    and dist: "distinct (columns df)"
    and strs: "object_dtype (map (\<lambda>r. r ! i) (rows (normalize_cities f i df)))"
  shows "\<exists>out. clean_and_merge f metros_initial df =
           (apply_column (normalize_city f) 0 metros_initial, out,
            Inr \<lparr>columns = columns df @ [''lat'', ''lng''],
                 rows = map (\<lambda>r. take (length (columns df)) r @ drop (Suc (length (columns df))) r)
                          (concat (map (\<lambda>l.
                             (case filter (\<lambda>r. r ! 0 = l ! i)
                                     (rows (apply_column (normalize_city f) 0 metros_initial)) of
                                [] \<Rightarrow> [l @ replicate 3 NA]
                              | ms \<Rightarrow> map (\<lambda>r. l @ r) ms))
                           (rows (normalize_cities f i df))))\<rparr>)"
proof -
  let ?m1 = "apply_column (normalize_city f) 0 metros_initial"
  let ?df1 = "normalize_cities f i df"
  let ?M = "concat (map (\<lambda>l.
              (case filter (\<lambda>r. r ! 0 = l ! i) (rows ?m1) of
                 [] \<Rightarrow> [l @ replicate 3 NA]
               | ms \<Rightarrow> map (\<lambda>r. l @ r) ms)) (rows ?df1))"
  have lcols: "map (\<lambda>c. if c \<in> set (columns ?m1) then c @ ''_x'' else c) (columns ?df1) = columns df"
    using fresh by (auto simp: columns_metros_initial intro!: map_idI)
  have rcols: "map (\<lambda>c. if c \<in> set (columns ?df1) then c @ ''_y'' else c) (columns ?m1)
                 = [''metro_full'', ''lat'', ''lng'']"
    using fresh by (simp add: columns_metros_initial)
  have d: "distinct (columns df @ [''metro_full'', ''lat'', ''lng''])"
    using fresh dist by simp
  have len: "length (columns ?m1) = 3"
    by (simp add: columns_metros_initial)
  have merge: "merge_left ?df1 i ?m1 0
                 = Inr \<lparr>columns = columns df @ [''metro_full'', ''lat'', ''lng''], rows = ?M\<rparr>"
    unfolding merge_left_def Let_def lcols rcols len
    using strs metros_keys_object [of f] d
    by (simp add: columns_metros_initial)
  have k: "index_of ''metro_full'' (columns df @ [''metro_full'', ''lat'', ''lng''])
             = Some (length (columns df))"
    using fresh by (simp add: index_of_append_right)
  have drop: "drop_column ''metro_full''
                \<lparr>columns = columns df @ [''metro_full'', ''lat'', ''lng''], rows = ?M\<rparr>
              = \<lparr>columns = columns df @ [''lat'', ''lng''],
                 rows = map (\<lambda>r. take (length (columns df)) r @ drop (Suc (length (columns df))) r) ?M\<rparr>"
    by (simp add: drop_column_def k)
  have lat: "index_of ''lat'' (columns df @ [''lat'', ''lng'']) = Some (length (columns df))"
    using fresh by (simp add: index_of_append_right)
  have cty: "index_of ''city_full'' (columns df @ [''lat'', ''lng'']) = Some i"
    using city by (rule index_of_append_left)
  show ?thesis
    unfolding clean_and_merge_def
    using fresh
    by (simp add: city Let_def columns_metros_initial select_metros_normalized merge drop lat cty
             del: replicate.simps)
qed


lemma rows_normalize_cities_wf:
  assumes "wf_frame df" and "i < length (columns df)"
  shows "rows (normalize_cities f i df) = map (\<lambda>r. r[i := resolve_city f (r ! i)]) (rows df)"
  using assms
  by (auto simp: normalize_cities_def apply_column_def resolve_city_def wf_frame_def)

text \<open>
  Claim C7. For a record whose city is \<open>Denver-Aurora-Lakewood\<close>, in a table with a
  \<open>city_full\<close> column and no \<open>lat\<close>, \<open>lng\<close> or \<open>metro_full\<close> column, the enrichment
  step with the module's metro table returns a table with the columns \<open>lat\<close> and
  \<open>lng\<close> added, in which the record has the city \<open>denver-aurora-centennial\<close>, its
  other cells as before, \<open>lat\<close> 39.7392 and \<open>lng\<close> -104.9903.
\<close>

theorem denver_enriched:
  assumes city: "index_of ''city_full'' (columns df) = Some i"
    and fresh: "''lat'' \<notin> set (columns df)" "''lng'' \<notin> set (columns df)"
               "''metro_full'' \<notin> set (columns df)"
    and wf: "wf_frame df"
    and r: "r \<in> set (rows df)" "r ! i = Str (ustr ''Denver-Aurora-Lakewood'')"
  shows "\<exists>m' out df'. clean_and_merge num_str metros_initial df = (m', out, Inr df')
           \<and> columns df' = columns df @ [''lat'', ''lng'']
           \<and> r[i := Str (ustr ''denver-aurora-centennial'')] @ [Num 39.7392, Num (-104.9903)]
               \<in> set (rows df')"
proof -
  let ?f = num_str
  let ?m1 = "apply_column (normalize_city ?f) 0 metros_initial"
  let ?df1 = "normalize_cities ?f i df"
  let ?l = "r[i := Str (ustr ''denver-aurora-centennial'')]"
  let ?d = "[Str (ustr ''denver-aurora-centennial''), Num 39.7392, Num (-104.9903)]"
  let ?k = "length (columns df)"
  from city have i: "i < ?k" by (auto dest: index_of_Some)
  from wf r(1) have len: "length r = ?k" by (simp add: wf_frame_def)
  from wf i r have l: "?l \<in> set (rows ?df1)"
    by (force simp: rows_normalize_cities_wf denver_alias)
  from i len have li: "?l ! i = Str (ustr ''denver-aurora-centennial'')" by simp
  from l li have strs: "object_dtype (map (\<lambda>r. r ! i) (rows ?df1))"
    by (force simp: object_dtype_def)
  have hit: "filter (\<lambda>x. x ! 0 = ?l ! i) (rows ?m1) = [?d]"
    unfolding li rows_metros_normalized by (rule denver_in_metros)
  let ?M = "concat (map (\<lambda>l.
              (case filter (\<lambda>r. r ! 0 = l ! i) (rows ?m1) of
                 [] \<Rightarrow> [l @ replicate 3 NA]
               | ms \<Rightarrow> map (\<lambda>r. l @ r) ms)) (rows ?df1))"
  from l hit have "?l @ ?d \<in> set ?M"
    by (auto intro!: bexI [of _ ?l])
  then have "take ?k (?l @ ?d) @ drop (Suc ?k) (?l @ ?d)
               \<in> set (map (\<lambda>r. take ?k r @ drop (Suc ?k) r) ?M)"
    unfolding set_map by (rule rev_image_eqI) (rule refl)
  moreover from len have "take ?k (?l @ ?d) @ drop (Suc ?k) (?l @ ?d)
                            = ?l @ [Num 39.7392, Num (-104.9903)]"
    by simp
  ultimately have mem: "?l @ [Num 39.7392, Num (-104.9903)]
                     \<in> set (map (\<lambda>r. take ?k r @ drop (Suc ?k) r) ?M)"
    by simp
  let ?res = "\<lparr>columns = columns df @ [''lat'', ''lng''],
               rows = map (\<lambda>r. take ?k r @ drop (Suc ?k) r) ?M\<rparr>"
  from wf have d: "distinct (columns df)" by (simp add: wf_frame_def)
  from clean_and_merge_join [OF city fresh d strs]
  obtain out where cm: "clean_and_merge num_str metros_initial df = (?m1, out, Inr ?res)"
    by blast
  show ?thesis
  proof (intro exI conjI)
    show "clean_and_merge num_str metros_initial df = (?m1, out, Inr ?res)" by (rule cm)
    show "columns ?res = columns df @ [''lat'', ''lng'']" by simp
    show "?l @ [Num 39.7392, Num (-104.9903)] \<in> set (rows ?res)"
      using mem by (simp only: frame.select_convs)
  qed
qed

theorem denver_enriched_witness:
  "\<exists>m' out df'. clean_and_merge (\<lambda>x. []) metros_initial
        \<lparr>columns = [''city_full'', ''median_list_price''],
         rows = [ [Str (ustr ''Denver-Aurora-Lakewood''), Num 250000] ]\<rparr> = (m', out, Inr df')
     \<and> columns df' = [''city_full'', ''median_list_price'', ''lat'', ''lng'']
     \<and> [Str (ustr ''denver-aurora-centennial''), Num 250000, Num 39.7392, Num (-104.9903)]
          \<in> set (rows df')"
  using denver_enriched
          [of "\<lparr>columns = [''city_full'', ''median_list_price''],
                rows = [ [Str (ustr ''Denver-Aurora-Lakewood''), Num 250000] ]\<rparr>" 0
              "[Str (ustr ''Denver-Aurora-Lakewood''), Num 250000]" "\<lambda>x. []"]
  by (simp add: wf_frame_def)


section \<open>Properties of the runner\<close>

lemma preprocess_split_missing:
  "files w (raw_dir, s @ ''.csv'') = None
   \<Longrightarrow> preprocess_split f s raw_dir processed_dir w
         = (w, Inl (FileNotFoundError (raw_dir, s @ ''.csv'')))"
  by (simp add: preprocess_split_def)

lemma run_preprocess_append:
  "run_preprocess f (xs @ ys) raw_dir processed_dir w =
     (case run_preprocess f xs raw_dir processed_dir w of
        (w1, None) \<Rightarrow> run_preprocess f ys raw_dir processed_dir w1
      | (w1, Some e) \<Rightarrow> (w1, Some e))"
  by (induction xs arbitrary: w) (auto split: prod.splits sum.splits option.splits)

text \<open>
  Claim C8, as amended. An input file that is missing or cannot be read is fatal for
  the run from that split on: when the splits before \<open>s\<close> have been processed without
  an exception and the file of \<open>s\<close> cannot be read, \<open>preprocess_split\<close> raises
  \<open>FileNotFoundError\<close> for \<open>s\<close> and changes nothing, and \<open>run_preprocess\<close> ends with
  that exception in the world the earlier splits have left: no split after \<open>s\<close> is
  processed.
\<close>

theorem run_preprocess_stops_at_unreadable:
  assumes "run_preprocess num_str before raw_dir processed_dir w = (w1, None)"
    and "files w1 (raw_dir, s @ ''.csv'') = None"
  shows "preprocess_split num_str s raw_dir processed_dir w1
           = (w1, Inl (FileNotFoundError (raw_dir, s @ ''.csv'')))
         \<and> run_preprocess num_str (before @ s # after) raw_dir processed_dir w
           = (w1, Some (FileNotFoundError (raw_dir, s @ ''.csv'')))"
  using assms by (simp add: run_preprocess_append preprocess_split_missing)

lemma example_train:
  "preprocess_split f ''train'' ''raw'' ''out'' example_world
     = (example_world_after_train, Inr example_table)"
  by (simp add: preprocess_split_def example_world_after_train_def example_world_def
        example_table_def clean_and_merge_def drop_duplicates_def key_positions_def row_key_def
        remove_outliers_def is_text_def Let_def)

lemma example_eval_missing: "files example_world_after_train (''raw'', ''eval.csv'') = None"
  by (simp add: example_world_after_train_def example_world_def)

theorem run_preprocess_stops_at_unreadable_witness:
  "run_preprocess (\<lambda>x. []) [''train''] ''raw'' ''out'' example_world
     = (example_world_after_train, None)
   \<and> files example_world_after_train (''raw'', ''eval'' @ ''.csv'') = None
   \<and> run_preprocess (\<lambda>x. []) ([''train''] @ ''eval'' # [''holdout'']) ''raw'' ''out'' example_world
     = (example_world_after_train, Some (FileNotFoundError (''raw'', ''eval'' @ ''.csv'')))"
proof -
  have a: "run_preprocess (\<lambda>x. []) [''train''] ''raw'' ''out'' example_world
             = (example_world_after_train, None)"
    by (simp add: example_train)
  have b: "files example_world_after_train (''raw'', ''eval'' @ ''.csv'') = None"
    by (simp add: example_eval_missing)
  from run_preprocess_stops_at_unreadable [OF a b, of "[''holdout'']"] a b show ?thesis
    by blast
qed

text \<open>
  Claim C8 as stated fails: with the \<open>eval\<close> file missing and the \<open>holdout\<close> file
  present, \<open>run_preprocess\<close> on \<open>train\<close>, \<open>eval\<close>, \<open>holdout\<close> ends with the
  exception of \<open>eval\<close>, has written the output of \<open>train\<close> and has not written the
  output of \<open>holdout\<close>.
\<close>

theorem run_preprocess_remaining_counterexample:
  "files example_world (''raw'', ''holdout.csv'') = Some example_table
   \<and> snd (run_preprocess (\<lambda>x. []) [''train'', ''eval'', ''holdout''] ''raw'' ''out'' example_world)
       = Some (FileNotFoundError (''raw'', ''eval.csv''))
   \<and> files (fst (run_preprocess (\<lambda>x. []) [''train'', ''eval'', ''holdout''] ''raw'' ''out''
                    example_world)) (''out'', ''clean_train.csv'') = Some example_table
   \<and> files (fst (run_preprocess (\<lambda>x. []) [''train'', ''eval'', ''holdout''] ''raw'' ''out''
                    example_world)) (''out'', ''clean_holdout.csv'') = None"
proof -
  have e: "preprocess_split (\<lambda>x. []) ''eval'' ''raw'' ''out'' example_world_after_train
             = (example_world_after_train, Inl (FileNotFoundError (''raw'', ''eval.csv'')))"
    using preprocess_split_missing [of example_world_after_train "''raw''" "''eval''"]
    by (simp add: example_eval_missing)
  have r: "run_preprocess (\<lambda>x. []) [''train'', ''eval'', ''holdout''] ''raw'' ''out'' example_world
             = (example_world_after_train, Some (FileNotFoundError (''raw'', ''eval.csv'')))"
    by (simp add: example_train e)
  show ?thesis
    unfolding r by (simp add: example_world_after_train_def example_world_def)
qed

lemma denver_table_merged:
  "\<exists>out. clean_and_merge f metros_initial denver_table =
     (apply_column (normalize_city f) 0 metros_initial, out,
      Inr \<lparr>columns = [''city_full'', ''lat'', ''lng''],
           rows = [ [Str (ustr ''denver-aurora-centennial''), Num 39.7392, Num (-104.9903)] ]\<rparr>)"
proof -
  have rows1: "rows (normalize_cities f 0 denver_table) = [ [Str (ustr ''denver-aurora-centennial'')] ]"
    by (simp add: rows_normalize_cities_wf wf_frame_def denver_table_def denver_alias)
  have hit: "filter (\<lambda>x. x ! 0 = Str (ustr ''denver-aurora-centennial''))
               (rows (apply_column (normalize_city f) 0 metros_initial))
             = [ [Str (ustr ''denver-aurora-centennial''), Num 39.7392, Num (-104.9903)] ]"
    unfolding rows_metros_normalized by (rule denver_in_metros)
  have strs: "object_dtype (map (\<lambda>r. r ! 0) (rows (normalize_cities f 0 denver_table)))"
    by (simp add: rows1 object_dtype_def)
  have c: "index_of ''city_full'' (columns denver_table) = Some 0"
    and fresh: "''lat'' \<notin> set (columns denver_table)" "''lng'' \<notin> set (columns denver_table)"
      "''metro_full'' \<notin> set (columns denver_table)"
    and d: "distinct (columns denver_table)"
    by (simp_all add: denver_table_def)
  have cols: "columns denver_table = [''city_full'']" by (simp add: denver_table_def)
  from clean_and_merge_join [OF c fresh d strs] show ?thesis
    unfolding rows1 cols by (simp add: hit)
qed

text \<open>
  Claim C9. The entry points have the parameters \<open>split\<close> (or \<open>splits\<close>), \<open>raw_dir\<close>
  and \<open>processed_dir\<close> and no other; the metro table is the module's global. For
  every value of the three parameters, a split whose file holds the record of
  \<open>Denver-Aurora-Lakewood\<close> without coordinates comes out enriched: no argument
  disables the enrichment.
\<close>

theorem enrichment_has_no_switch:
  assumes "files w (raw_dir, split @ ''.csv'') = Some denver_table"
    and "metros w = metros_initial"
  shows "\<exists>w'. preprocess_split num_str split raw_dir processed_dir w =
           (w', Inr \<lparr>columns = [''city_full'', ''lat'', ''lng''],
                     rows = [ [Str (ustr ''denver-aurora-centennial''),
                              Num 39.7392, Num (-104.9903)] ]\<rparr>)"
proof -
  let ?res = "\<lparr>columns = [''city_full'', ''lat'', ''lng''],
               rows = [ [Str (ustr ''denver-aurora-centennial''), Num 39.7392, Num (-104.9903)] ]\<rparr>"
  from denver_table_merged [of num_str] obtain out where
    cm: "clean_and_merge num_str metros_initial denver_table
           = (apply_column (normalize_city num_str) 0 metros_initial, out, Inr ?res)"
    by blast
  have dd: "drop_duplicates \<lparr>columns = cs, rows = [r]\<rparr>
              = ([DroppedDuplicates 0], \<lparr>columns = cs, rows = [r]\<rparr>)" for cs r
    by (simp add: drop_duplicates_def)
  have ro: "remove_outliers \<lparr>columns = [''city_full'', ''lat'', ''lng''], rows = rs\<rparr>
              = ([], Inr \<lparr>columns = [''city_full'', ''lat'', ''lng''], rows = rs\<rparr>)" for rs
    by (simp add: remove_outliers_def)
  show ?thesis
    using assms by (simp add: preprocess_split_def cm dd ro Let_def)
qed

theorem enrichment_has_no_switch_witness:
  "\<exists>w'. preprocess_split (\<lambda>x. []) ''train'' ''data/raw'' ''data/processed''
            \<lparr>metros = metros_initial,
             files = [(''data/raw'', ''train.csv'') \<mapsto> denver_table],
             printed = []\<rparr> =
           (w', Inr \<lparr>columns = [''city_full'', ''lat'', ''lng''],
                     rows = [ [Str (ustr ''denver-aurora-centennial''),
                              Num 39.7392, Num (-104.9903)] ]\<rparr>)"
  using enrichment_has_no_switch
          [of "\<lparr>metros = metros_initial,
                files = [(''data/raw'', ''train.csv'') \<mapsto> denver_table],
                printed = []\<rparr>" "''data/raw''" "''train''" "\<lambda>x. []" "''data/processed''"]
  by simp

end
